theory Spec2Isabelle
  imports Complex_Main "HOL-Library.Word" "HOL-Library.Log_Nat"
begin

section \<open>JavaScript values\<close>

text \<open>
  A JavaScript string is a sequence of UTF-16 code units. String literals of the source
  are ASCII and are written with \<open>js\<close>.
\<close>

type_synonym jschar = "16 word"
type_synonym jsstring = "jschar list"

definition js :: "string \<Rightarrow> jsstring" where
  "js s = map of_char s"

text \<open>
  A JavaScript number is an IEEE 754 double: a finite value (kept as the rational it
  denotes; the two zeros are identified, no function below tells them apart), NaN or an
  infinity.
\<close>

datatype jsnum = Fin rat | NaN | PosInf | NegInf

text \<open>An exception object; only its \<open>message\<close> property is read by the code.\<close>

record js_error =
  err_message :: jsstring

section \<open>The chat hook (hooks/useChat)\<close>

datatype message_type = TUser | TAssistant | TError

text \<open>The body of a successful \<open>POST /chat\<close>, as \<open>sendChatMessage\<close> returns it.\<close>

record chat_response =
  response :: jsstring
  r_ticker :: "jsstring option"
  r_signal :: "jsstring option"
  r_confidence :: "jsnum option"
  r_sources :: "jsstring list option"
  r_timestamp :: "jsstring option"
  r_intent :: "jsstring option"
  r_handler :: "jsstring option"
  r_context_retrieved :: "bool option"

text \<open>The properties that only an assistant message carries.\<close>

record assistant_fields =
  ticker :: "jsstring option"
  signal :: "jsstring option"
  confidence :: "jsnum option"
  sources :: "jsstring list"
  intent :: "jsstring option"
  handler :: "jsstring option"
  contextRetrieved :: "bool option"

record message =
  msg_id :: int
  msg_type :: message_type
  content :: jsstring
  timestamp :: "jsstring option"
  annotations :: "assistant_fields option"

record history_entry =
  role :: jsstring
  h_content :: jsstring

record chat_request =
  q_query :: jsstring
  q_ticker :: "jsstring option"
  q_chat_history :: "history_entry list"
  q_structured :: bool

text \<open>The four \<open>useState\<close> cells of \<open>useChat\<close>.\<close>

record chat_state =
  messages :: "message list"
  isLoading :: bool
  error :: "jsstring option"
  chatHistory :: "history_entry list"

definition useChat_init :: chat_state where
  "useChat_init = \<lparr>messages = [], isLoading = False, error = None, chatHistory = []\<rparr>"

text \<open>
  What one call of \<open>sendMessage\<close> reads from outside the hook: the clock at the two
  places where a message is built (\<open>Date.now()\<close> and \<open>new Date().toISOString()\<close>) and
  how the awaited \<open>sendChatMessage\<close> settles (\<open>Inl\<close>: it rejects with that error).
\<close>

record send_env =
  now_start :: int
  iso_start :: jsstring
  outcome :: "js_error + chat_response"
  now_end :: int
  iso_end :: jsstring

definition userMessage :: "jsstring \<Rightarrow> send_env \<Rightarrow> message" where
  "userMessage query env =
     \<lparr>msg_id = now_start env, msg_type = TUser, content = query,
      timestamp = Some (iso_start env), annotations = None\<rparr>"

definition aiMessage :: "chat_response \<Rightarrow> send_env \<Rightarrow> message" where
  "aiMessage r env =
     \<lparr>msg_id = now_end env + 1, msg_type = TAssistant, content = response r,
      timestamp = r_timestamp r,
      annotations = Some
        \<lparr>ticker = r_ticker r, signal = r_signal r, confidence = r_confidence r,
         sources = (case r_sources r of None \<Rightarrow> [] | Some xs \<Rightarrow> xs),
         intent = r_intent r, handler = r_handler r,
         contextRetrieved = r_context_retrieved r\<rparr>\<rparr>"

definition error_text :: jsstring where
  "error_text =
     js ''Sorry, I encountered an error processing your request. Please try again.''"

definition errorMessage :: "send_env \<Rightarrow> message" where
  "errorMessage env =
     \<lparr>msg_id = now_end env + 1, msg_type = TError, content = error_text,
      timestamp = Some (iso_end env), annotations = None\<rparr>"

text \<open>
  \<open>sendMessage\<close> up to its \<open>await\<close>: the user message is appended, the loading flag is
  set, the error is cleared and the request is issued. There is no test of \<open>isLoading\<close> or
  of the text here.
\<close>

definition sendMessage_begin ::
  "jsstring \<Rightarrow> jsstring option \<Rightarrow> bool \<Rightarrow> send_env \<Rightarrow> chat_state \<Rightarrow> chat_state \<times> chat_request"
where
  "sendMessage_begin query tk structured env s =
     (s\<lparr>messages := messages s @ [userMessage query env], isLoading := True, error := None\<rparr>,
      \<lparr>q_query = query, q_ticker = tk, q_chat_history = chatHistory s,
       q_structured = structured\<rparr>)"

text \<open>
  \<open>sendMessage\<close> after the \<open>await\<close>: the \<open>try\<close> body on success, the \<open>catch\<close> body
  on failure, \<open>finally\<close> in both. The second component is how the promise of
  \<open>sendMessage\<close> settles: \<open>Inr\<close> the value it resolves with, \<open>Inl\<close> the error it
  rejects with.
\<close>

definition sendMessage_settle ::
  "jsstring \<Rightarrow> send_env \<Rightarrow> chat_state \<Rightarrow> chat_state \<times> (js_error + message)"
where
  "sendMessage_settle query env s =
     (case outcome env of
        Inr r \<Rightarrow>
          (s\<lparr>messages := messages s @ [aiMessage r env],
             chatHistory := chatHistory s @
               [\<lparr>role = js ''user'', h_content = query\<rparr>,
                \<lparr>role = js ''assistant'', h_content = response r\<rparr>],
             isLoading := False\<rparr>,
           Inr (aiMessage r env))
      | Inl err \<Rightarrow>
          (s\<lparr>messages := messages s @ [errorMessage env],
             error := Some (err_message err),
             isLoading := False\<rparr>,
           Inl err))"

text \<open>A call that is awaited: nothing else touches the state in between.\<close>

definition sendMessage ::
  "jsstring \<Rightarrow> jsstring option \<Rightarrow> bool \<Rightarrow> send_env \<Rightarrow> chat_state \<Rightarrow> chat_state \<times> (js_error + message)"
where
  "sendMessage query tk structured env s =
     sendMessage_settle query env (fst (sendMessage_begin query tk structured env s))"


text \<open>A sequence of calls, each awaited before the next is made.\<close>

record call =
  c_query :: jsstring
  c_ticker :: "jsstring option"
  c_structured :: bool
  c_env :: send_env

definition send_call :: "chat_state \<Rightarrow> call \<Rightarrow> chat_state" where
  "send_call s c = fst (sendMessage (c_query c) (c_ticker c) (c_structured c) (c_env c) s)"

definition send_all :: "chat_state \<Rightarrow> call list \<Rightarrow> chat_state" where
  "send_all s cs = foldl send_call s cs"

text \<open>What one call is expected to leave in the log and in the history.\<close>

definition call_log :: "call \<Rightarrow> (message_type \<times> jsstring) list" where
  "call_log c =
     [(TUser, c_query c),
      (case outcome (c_env c) of
         Inr r \<Rightarrow> (TAssistant, response r)
       | Inl err \<Rightarrow> (TError, error_text))]"

definition call_history :: "call \<Rightarrow> history_entry list" where
  "call_history c =
     (case outcome (c_env c) of
        Inr r \<Rightarrow> [\<lparr>role = js ''user'', h_content = c_query c\<rparr>,
                  \<lparr>role = js ''assistant'', h_content = response r\<rparr>]
      | Inl err \<Rightarrow> [])"

definition log_view :: "message \<Rightarrow> message_type \<times> jsstring" where
  "log_view m = (msg_type m, content m)"

text \<open>The ids one call gives to its two messages.\<close>

definition call_ids :: "call \<Rightarrow> int list" where
  "call_ids c = [now_start (c_env c), now_end (c_env c) + 1]"

section \<open>The chat input (components/chat/ChatInput)\<close>

text \<open>
  The code units that \<open>String.prototype.trim\<close> strips: the WhiteSpace and
  LineTerminator code points of ECMAScript.
\<close>

definition is_whitespace :: "jschar \<Rightarrow> bool" where
  "is_whitespace c =
     (c = 0x09 \<or> c = 0x0A \<or> c = 0x0B \<or> c = 0x0C \<or> c = 0x0D \<or> c = 0x20 \<or> c = 0xA0
      \<or> c = 0x1680 \<or> (0x2000 \<le> c \<and> c \<le> 0x200A) \<or> c = 0x2028 \<or> c = 0x2029
      \<or> c = 0x202F \<or> c = 0x205F \<or> c = 0x3000 \<or> c = 0xFEFF)"

definition trim :: "jsstring \<Rightarrow> jsstring" where
  "trim s = rev (dropWhile is_whitespace (rev (dropWhile is_whitespace s)))"

record chat_input =
  message :: jsstring
  showSuggestions :: bool

text \<open>
  \<open>handleSubmit\<close>, given the \<open>isLoading\<close> prop. The second component is the argument
  \<open>onSend\<close> is called with, or \<open>None\<close> when it is not called. A non-empty string is
  the only truthy one.
\<close>

definition handleSubmit :: "bool \<Rightarrow> chat_input \<Rightarrow> chat_input \<times> jsstring option" where
  "handleSubmit loading inp =
     (if trim (message inp) \<noteq> [] \<and> \<not> loading
      then (inp\<lparr>message := [], showSuggestions := False\<rparr>, Some (trim (message inp)))
      else (inp, None))"

section \<open>The chat interface (components/chat/ChatInterface)\<close>

text \<open>
  The state of one mounted \<open>ChatInterface\<close>: the hook, its own cells
  \<open>currentTicker\<close> and \<open>lastSources\<close>, its prop \<open>initialTicker\<close> and the state of
  the \<open>ChatInput\<close> it renders.
\<close>

record chat_interface =
  chat :: chat_state
  currentTicker :: "jsstring option"
  lastSources :: "jsstring list"
  initialTicker :: "jsstring option"
  chatInput :: chat_input

definition ChatInterface_init :: "jsstring option \<Rightarrow> chat_interface" where
  "ChatInterface_init t0 =
     \<lparr>chat = useChat_init, currentTicker = t0, lastSources = [], initialTicker = t0,
      chatInput = \<lparr>message = [], showSuggestions = False\<rparr>\<rparr>"

text \<open>The effect on \<open>messages\<close> that copies the sources of the last assistant message.\<close>

definition lastAssistantMessage :: "message list \<Rightarrow> message option" where
  "lastAssistantMessage ms = find (\<lambda>msg. msg_type msg = TAssistant) (rev ms)"

definition sources_effect :: "chat_interface \<Rightarrow> chat_interface" where
  "sources_effect ci =
     (case lastAssistantMessage (messages (chat ci)) of
        None \<Rightarrow> ci
      | Some msg \<Rightarrow>
          (case annotations msg of
             None \<Rightarrow> ci
           | Some a \<Rightarrow> ci\<lparr>lastSources := sources a\<rparr>))"

text \<open>
  \<open>handleSendMessage\<close>, awaited. The value \<open>sendMessage\<close> resolves with is the assistant
  message; its ticker is adopted when it is truthy and differs from the current one. A
  rejection is logged and swallowed.
\<close>

definition adopt_ticker :: "message \<Rightarrow> chat_interface \<Rightarrow> chat_interface" where
  "adopt_ticker msg ci =
     (case annotations msg of
        None \<Rightarrow> ci
      | Some a \<Rightarrow>
          (case ticker a of
             None \<Rightarrow> ci
           | Some t \<Rightarrow>
               if t \<noteq> [] \<and> Some t \<noteq> currentTicker ci then ci\<lparr>currentTicker := Some t\<rparr>
               else ci))"

definition handleSendMessage :: "jsstring \<Rightarrow> send_env \<Rightarrow> chat_interface \<Rightarrow> chat_interface" where
  "handleSendMessage text env ci =
     (case sendMessage text (currentTicker ci) False env (chat ci) of
        (s', Inr msg) \<Rightarrow> sources_effect (adopt_ticker msg (ci\<lparr>chat := s'\<rparr>))
      | (s', Inl err) \<Rightarrow> sources_effect (ci\<lparr>chat := s'\<rparr>))"


text \<open>
  Submitting the form of the input: \<open>handleSubmit\<close> with the hook's \<open>isLoading\<close> as
  prop and \<open>handleSendMessage\<close> as \<open>onSend\<close>. The second component is the request that
  goes out, if any.
\<close>

definition submit :: "send_env \<Rightarrow> chat_interface \<Rightarrow> chat_interface \<times> chat_request option" where
  "submit env ci =
     (case handleSubmit (isLoading (chat ci)) (chatInput ci) of
        (inp, None) \<Rightarrow> (ci\<lparr>chatInput := inp\<rparr>, None)
      | (inp, Some text) \<Rightarrow>
          (handleSendMessage text env (ci\<lparr>chatInput := inp\<rparr>),
           Some (snd (sendMessage_begin text (currentTicker ci) False env (chat ci)))))"







subsection \<open>Concrete inputs\<close>

definition env_ok :: "int \<Rightarrow> int \<Rightarrow> send_env" where
  "env_ok t0 t1 =
     \<lparr>now_start = t0, iso_start = js ''2024-01-01T00:00:00.000Z'',
      outcome = Inr \<lparr>response = js ''ok'', r_ticker = Some (js ''AAPL''), r_signal = None,
                     r_confidence = None, r_sources = None, r_timestamp = None,
                     r_intent = None, r_handler = None, r_context_retrieved = None\<rparr>,
      now_end = t1, iso_end = js ''2024-01-01T00:00:01.000Z''\<rparr>"

definition pending_state :: chat_state where
  "pending_state = fst (sendMessage_begin (js ''first'') None False (env_ok 1000 1000) useChat_init)"

definition call_at :: "string \<Rightarrow> int \<Rightarrow> int \<Rightarrow> call" where
  "call_at q t0 t1 =
     \<lparr>c_query = js q, c_ticker = None, c_structured = False, c_env = env_ok t0 t1\<rparr>"

definition pending_interface :: chat_interface where
  "pending_interface =
     (ChatInterface_init None)
       \<lparr>chat := pending_state,
        chatInput := \<lparr>message = js ''second'', showSuggestions = False\<rparr>\<rparr>"


definition blank_interface :: chat_interface where
  "blank_interface =
     (ChatInterface_init None)\<lparr>chatInput := \<lparr>message = js ''  '', showSuggestions = False\<rparr>\<rparr>"

section \<open>The dashboard page (pages/Dashboard)\<close>

record analysis =
  a_ticker :: jsstring
  a_signal :: jsstring
  a_date :: jsstring

record overview =
  analyses :: "analysis list option"
  ov_count :: int

record latest_price =
  price :: jsnum
  change :: jsnum
  change_percent :: jsnum

record news_item =
  n_title :: jsstring
  n_url :: jsstring

text \<open>
  The six \<open>useState\<close> cells of the page. The object \<open>prices\<close> is a map from ticker
  to the price data or to \<open>null\<close> (\<open>Some None\<close>); a ticker that is no key of the object
  is \<open>None\<close>.
\<close>

record dashboard =
  dashboardData :: "overview option"
  prices :: "jsstring \<rightharpoonup> latest_price option"
  news :: "news_item list"
  loading :: bool
  dash_error :: "jsstring option"
  signalFilter :: "jsstring option"

definition Dashboard_init :: dashboard where
  "Dashboard_init =
     \<lparr>dashboardData = None, prices = Map.empty, news = [], loading = True,
      dash_error = None, signalFilter = None\<rparr>"

text \<open>
  How the requests of one invocation of \<open>fetchDashboardData\<close> settle: the overview, the
  \<open>getLatestPrice\<close> call made for the analysis at each index, and the news
  (\<open>Inl\<close>: the request rejects).
\<close>

record refresh_env =
  overview_result :: "js_error + overview"
  price_result :: "nat \<Rightarrow> js_error + latest_price"
  news_result :: "js_error + news_item list"

text \<open>
  Where an invocation is suspended: at the \<open>await\<close> of the overview, at the
  \<open>await Promise.all\<close> of the prices (holding \<open>overviewData.analyses\<close>), or at the
  \<open>await\<close> of the news.
\<close>

datatype phase = AwaitOverview | AwaitPrices "analysis list" | AwaitNews

definition failure_text :: jsstring where
  "failure_text = js ''Failed to load dashboard data. Please try again.''"

text \<open>The invocation up to its first \<open>await\<close>.\<close>

definition fetch_start :: "dashboard \<Rightarrow> dashboard" where
  "fetch_start d = d\<lparr>loading := True, dash_error := None\<rparr>"

text \<open>Each price promise catches its own rejection and resolves with \<open>price: null\<close>.\<close>

definition priceResults :: "refresh_env \<Rightarrow> analysis list \<Rightarrow> (jsstring \<times> latest_price option) list" where
  "priceResults env xs =
     map (\<lambda>(i, a). (a_ticker a, (case price_result env i of Inr p \<Rightarrow> Some p | Inl err \<Rightarrow> None)))
       (enumerate 0 xs)"

definition pricesMap :: "(jsstring \<times> latest_price option) list \<Rightarrow> (jsstring \<rightharpoonup> latest_price option)" where
  "pricesMap rs = foldl (\<lambda>m (t, p). m(t \<mapsto> p)) Map.empty rs"

text \<open>
  The code between two \<open>await\<close>s, run when the awaited promise settles; the second
  component is where the invocation is suspended next, \<open>None\<close> when it has returned
  (the \<open>finally\<close> block has then run).
\<close>

definition after_overview :: "refresh_env \<Rightarrow> dashboard \<Rightarrow> dashboard \<times> phase option" where
  "after_overview env d =
     (case overview_result env of
        Inl err \<Rightarrow> (d\<lparr>dash_error := Some failure_text, loading := False\<rparr>, None)
      | Inr ov \<Rightarrow>
          (case analyses ov of
             Some (a # as) \<Rightarrow> (d\<lparr>dashboardData := Some ov\<rparr>, Some (AwaitPrices (a # as)))
           | Some [] \<Rightarrow> (d\<lparr>dashboardData := Some ov, loading := False\<rparr>, None)
           | None \<Rightarrow> (d\<lparr>dashboardData := Some ov, loading := False\<rparr>, None)))"

definition after_prices :: "refresh_env \<Rightarrow> analysis list \<Rightarrow> dashboard \<Rightarrow> dashboard \<times> phase option" where
  "after_prices env xs d = (d\<lparr>prices := pricesMap (priceResults env xs)\<rparr>, Some AwaitNews)"

definition after_news :: "refresh_env \<Rightarrow> dashboard \<Rightarrow> dashboard \<times> phase option" where
  "after_news env d =
     (d\<lparr>news := (case news_result env of Inr ns \<Rightarrow> ns | Inl err \<Rightarrow> []), loading := False\<rparr>,
      None)"

fun resume :: "refresh_env \<Rightarrow> phase \<Rightarrow> dashboard \<Rightarrow> dashboard \<times> phase option" where
  "resume env AwaitOverview d = after_overview env d"
| "resume env (AwaitPrices xs) d = after_prices env xs d"
| "resume env AwaitNews d = after_news env d"

text \<open>
  One invocation with nothing else running in between: the states after the synchronous
  start and after each resumption, in order; the last one is the state when the
  invocation has returned.
\<close>

fun resume_all :: "nat \<Rightarrow> refresh_env \<Rightarrow> phase \<Rightarrow> dashboard \<Rightarrow> dashboard list" where
  "resume_all 0 env ph d = []"
| "resume_all (Suc n) env ph d =
     (case resume env ph d of
        (d', None) \<Rightarrow> [d']
      | (d', Some ph') \<Rightarrow> d' # resume_all n env ph' d')"

definition fetch_trace :: "refresh_env \<Rightarrow> dashboard \<Rightarrow> dashboard list" where
  "fetch_trace env d = fetch_start d # resume_all 3 env AwaitOverview (fetch_start d)"

definition fetchDashboardData :: "refresh_env \<Rightarrow> dashboard \<Rightarrow> dashboard" where
  "fetchDashboardData env d = last (fetch_trace env d)"

text \<open>What the component renders: the loader, the error view, or the page.\<close>

datatype view =
  LoaderView
  | ErrorView jsstring
  | PageView "overview option" "jsstring \<rightharpoonup> latest_price option" "news_item list" "jsstring option"

definition render :: "dashboard \<Rightarrow> view" where
  "render d =
     (if loading d then LoaderView
      else (case dash_error d of
              Some e \<Rightarrow> if e \<noteq> [] then ErrorView e
                        else PageView (dashboardData d) (prices d) (news d) (signalFilter d)
            | None \<Rightarrow> PageView (dashboardData d) (prices d) (news d) (signalFilter d)))"

subsection \<open>Several invocations\<close>

text \<open>
  The page together with the invocations of \<open>fetchDashboardData\<close> that have not returned
  yet, each with the place where it is suspended. Invocations are numbered in the order
  they are made; \<open>envs k\<close> says how the requests of invocation \<open>k\<close> settle. The numbering belongs to the model: the code keeps no such
  number.
\<close>

record system =
  dash :: dashboard
  inflight :: "(nat \<times> phase) list"
  started :: nat

definition invoke :: "system \<Rightarrow> system" where
  "invoke sys =
     sys\<lparr>dash := fetch_start (dash sys),
         inflight := inflight sys @ [(started sys, AwaitOverview)],
         started := Suc (started sys)\<rparr>"

definition settle :: "(nat \<Rightarrow> refresh_env) \<Rightarrow> nat \<Rightarrow> system \<Rightarrow> system" where
  "settle envs k sys =
     (case map_of (inflight sys) k of
        None \<Rightarrow> sys
      | Some ph \<Rightarrow>
          (case resume (envs k) ph (dash sys) of
             (d', None) \<Rightarrow>
               sys\<lparr>dash := d', inflight := filter (\<lambda>(j, q). j \<noteq> k) (inflight sys)\<rparr>
           | (d', Some ph') \<Rightarrow>
               sys\<lparr>dash := d',
                   inflight := map (\<lambda>(j, q). if j = k then (j, ph') else (j, q)) (inflight sys)\<rparr>))"

text \<open>
  The page is mounted: the effect on \<open>signalFilter\<close> runs once and makes the first
  invocation.
\<close>

definition mounted :: system where
  "mounted = invoke \<lparr>dash = Dashboard_init, inflight = [], started = 0\<rparr>"

text \<open>
  What a user of the page can do. The filter select and the refresh button are part of
  the page view only (the button is moreover disabled while loading); the retry button is
  part of the error view only. Selecting a filter sets \<open>signalFilter\<close>, and the effect
  invokes \<open>fetchDashboardData\<close> when the value has changed. A response may arrive at any
  time.
\<close>

datatype ui_action = SelectFilter "jsstring option" | ClickRefresh | ClickRetry | Response nat

fun ui_event :: "(nat \<Rightarrow> refresh_env) \<Rightarrow> system \<Rightarrow> ui_action \<Rightarrow> system" where
  "ui_event envs sys (Response k) = settle envs k sys"
| "ui_event envs sys ClickRefresh =
     (case render (dash sys) of
        PageView ov ps ns f \<Rightarrow> invoke sys
      | LoaderView \<Rightarrow> sys
      | ErrorView e \<Rightarrow> sys)"
| "ui_event envs sys ClickRetry =
     (case render (dash sys) of
        ErrorView e \<Rightarrow> invoke sys
      | LoaderView \<Rightarrow> sys
      | PageView ov ps ns f \<Rightarrow> sys)"
| "ui_event envs sys (SelectFilter g) =
     (case render (dash sys) of
        PageView ov ps ns f \<Rightarrow>
          if g = f then sys
          else invoke (sys\<lparr>dash := (dash sys)\<lparr>signalFilter := g\<rparr>\<rparr>)
      | LoaderView \<Rightarrow> sys
      | ErrorView e \<Rightarrow> sys)"

definition ui_run :: "(nat \<Rightarrow> refresh_env) \<Rightarrow> ui_action list \<Rightarrow> system" where
  "ui_run envs evs = foldl (ui_event envs) mounted evs"

text \<open>
  The state the page is in while exactly the latest invocation is running, or none.
\<close>

definition one_at_a_time :: "system \<Rightarrow> bool" where
  "one_at_a_time sys =
     (if loading (dash sys)
      then map fst (inflight sys) = [started sys - 1] \<and> 0 < started sys
      else inflight sys = [])"

subsection \<open>Concrete backends\<close>

definition an :: "string \<Rightarrow> analysis" where
  "an t = \<lparr>a_ticker = js t, a_signal = js ''BUY'', a_date = js ''2024-01-01''\<rparr>"

definition ov_of :: "string list \<Rightarrow> overview" where
  "ov_of ts = \<lparr>analyses = Some (map an ts), ov_count = int (length ts)\<rparr>"

definition quote :: "int \<Rightarrow> latest_price" where
  "quote n = \<lparr>price = Fin (of_int n), change = Fin 0, change_percent = Fin 0\<rparr>"

definition item :: "string \<Rightarrow> news_item" where
  "item t = \<lparr>n_title = js t, n_url = js ''https://example.org''\<rparr>"

definition env_of :: "string list \<Rightarrow> int \<Rightarrow> string \<Rightarrow> refresh_env" where
  "env_of ts n t =
     \<lparr>overview_result = Inr (ov_of ts), price_result = (\<lambda>i. Inr (quote n)),
      news_result = Inr [item t]\<rparr>"

definition envs_ab :: "nat \<Rightarrow> refresh_env" where
  "envs_ab k = (if k = 0 then env_of [''A''] 100 ''old'' else env_of [''B''] 200 ''new'')"

definition envs_empty :: "nat \<Rightarrow> refresh_env" where
  "envs_empty k = (if k = 0 then env_of [''A''] 100 ''old'' else env_of [] 200 ''new'')"

definition env_abc :: refresh_env where
  "env_abc =
     \<lparr>overview_result = Inr (ov_of [''A'', ''B'', ''C'']),
      price_result = (\<lambda>i. if i = 1 then Inl \<lparr>err_message = js ''timeout''\<rparr> else Inr (quote (int i))),
      news_result = Inl \<lparr>err_message = js ''timeout''\<rparr>\<rparr>"

definition half_published :: dashboard where
  "half_published =
     fetch_trace (env_of [''B''] 200 ''new'')
       (fetchDashboardData (env_of [''A''] 100 ''old'') Dashboard_init) ! 1"



definition stale_page :: system where
  "stale_page =
     ui_run envs_empty
       [Response 0, Response 0, Response 0, SelectFilter (Some (js ''SELL'')), Response 1]"

section \<open>Formatting and validation helpers (utils/helpers)\<close>

text \<open>
  The values the helpers are given: \<open>null\<close>, \<open>undefined\<close>, a number or a string.
\<close>

datatype jsvalue = JNull | JUndefined | JNum jsnum | JStr jsstring

text \<open>
  Built-in conversions of the JavaScript runtime that the helpers call and that are not
  modelled here but taken as given: \<open>parseFloat\<close> and \<open>ToNumber\<close> of a string, and
  \<open>Number::toString\<close>.
\<close>

record js_runtime =
  parseFloat_string :: "jsstring \<Rightarrow> jsnum"
  toNumber_string :: "jsstring \<Rightarrow> jsnum"
  toString_number :: "jsnum \<Rightarrow> jsstring"

text \<open>
  Rounding a rational to the nearest double, ties to even: the value of a numeric literal
  and of a quotient. \<open>floor_log2 a\<close> is the binary exponent of a positive \<open>a\<close>; below
  \<open>2 ^ - 1022\<close> the spacing of doubles stays \<open>2 ^ - 1074\<close>; from \<open>2 ^ 1024\<close> on the
  result is an infinity.
\<close>

definition pow2 :: "int \<Rightarrow> rat" where
  "pow2 e = (if 0 \<le> e then 2 ^ nat e else 1 / 2 ^ nat (- e))"

definition floor_log2 :: "rat \<Rightarrow> int" where
  "floor_log2 a =
     (case quotient_of a of
        (p, q) \<Rightarrow> (let k = bitlen p - bitlen q in if pow2 k \<le> a then k else k - 1))"

definition round_half_even :: "rat \<Rightarrow> int" where
  "round_half_even x =
     (let n = \<lfloor>x\<rfloor>; r = x - of_int n
      in if r < 1 / 2 then n else if 1 / 2 < r then n + 1 else if even n then n else n + 1)"

definition round_double :: "rat \<Rightarrow> jsnum" where
  "round_double x =
     (if x = 0 then Fin 0
      else
        (let a = \<bar>x\<bar>;
             e = max (floor_log2 a) (- 1022);
             ulp = pow2 (e - 52);
             v = of_int (round_half_even (a / ulp)) * ulp
         in if 2 ^ 1024 \<le> v then (if x < 0 then NegInf else PosInf)
            else Fin (if x < 0 then - v else v)))"

text \<open>Unary minus, \<open>>=\<close>, and division by a positive constant.\<close>

definition js_neg :: "jsnum \<Rightarrow> jsnum" where
  "js_neg x = (case x of Fin a \<Rightarrow> Fin (- a) | NaN \<Rightarrow> NaN | PosInf \<Rightarrow> NegInf | NegInf \<Rightarrow> PosInf)"

fun js_ge :: "jsnum \<Rightarrow> jsnum \<Rightarrow> bool" where
  "js_ge NaN y = False"
| "js_ge x NaN = False"
| "js_ge (Fin a) (Fin b) = (b \<le> a)"
| "js_ge PosInf y = True"
| "js_ge x NegInf = True"
| "js_ge NegInf y = False"
| "js_ge x PosInf = False"

definition js_div_by :: "jsnum \<Rightarrow> rat \<Rightarrow> jsnum" where
  "js_div_by x c = (case x of Fin a \<Rightarrow> round_double (a / c) | NaN \<Rightarrow> NaN | PosInf \<Rightarrow> PosInf | NegInf \<Rightarrow> NegInf)"

text \<open>
  \<open>Number.prototype.toFixed\<close> for a fraction digit count between 0 and 100, as ECMAScript
  defines it on the exact value: the integer \<open>n\<close> for which \<open>n / 10 ^ f\<close> is nearest to
  the value (the larger one of two), printed with \<open>f\<close> digits after the point.
\<close>

fun digits :: "nat \<Rightarrow> jsstring" where
  "digits n = (if n < 10 then [0x30 + of_nat n] else digits (n div 10) @ [0x30 + of_nat (n mod 10)])"

declare digits.simps [simp del]

definition toFixed :: "js_runtime \<Rightarrow> nat \<Rightarrow> jsnum \<Rightarrow> jsstring" where
  "toFixed rt f x =
     (case x of
        NaN \<Rightarrow> js ''NaN''
      | PosInf \<Rightarrow> js ''Infinity''
      | NegInf \<Rightarrow> js ''-Infinity''
      | Fin v \<Rightarrow>
          (let s = (if v < 0 then js ''-'' else []);
               a = (if v < 0 then - v else v)
           in if 10 ^ 21 \<le> a then s @ toString_number rt (Fin a)
              else
                (let n = nat \<lfloor>a * 10 ^ f + 1 / 2\<rfloor>;
                     m = (if n = 0 then js ''0'' else digits n);
                     m' = (if f \<noteq> 0
                           then (let z = (if length m \<le> f then replicate (f + 1 - length m) 0x30 @ m else m);
                                     k = length z
                                 in take (k - f) z @ js ''.'' @ drop (k - f) z)
                           else m)
                 in s @ m')))"

text \<open>The helpers of utils/helpers.\<close>

definition formatPercent :: "js_runtime \<Rightarrow> jsvalue \<Rightarrow> jsstring" where
  "formatPercent rt v =
     (case v of
        JNull \<Rightarrow> js ''N/A''
      | JUndefined \<Rightarrow> js ''N/A''
      | JStr s \<Rightarrow>
          (let num = parseFloat_string rt s
           in (if js_ge num (Fin 0) then js ''+'' else []) @ toFixed rt 2 num @ js ''%'')
      | JNum num \<Rightarrow>
          (if js_ge num (Fin 0) then js ''+'' else []) @ toFixed rt 2 num @ js ''%'')"


definition formatPrice :: "js_runtime \<Rightarrow> jsvalue \<Rightarrow> jsstring" where
  "formatPrice rt v =
     (case v of
        JNull \<Rightarrow> js ''N/A''
      | JUndefined \<Rightarrow> js ''N/A''
      | JStr s \<Rightarrow> js ''$'' @ toFixed rt 2 (parseFloat_string rt s)
      | JNum x \<Rightarrow> js ''$'' @ toFixed rt 2 (parseFloat_string rt (toString_number rt x)))"

definition toNumber :: "js_runtime \<Rightarrow> jsvalue \<Rightarrow> jsnum" where
  "toNumber rt v =
     (case v of JNull \<Rightarrow> Fin 0 | JUndefined \<Rightarrow> NaN | JNum x \<Rightarrow> x
      | JStr s \<Rightarrow> toNumber_string rt s)"

definition toString_value :: "js_runtime \<Rightarrow> jsvalue \<Rightarrow> jsstring" where
  "toString_value rt v =
     (case v of JNull \<Rightarrow> js ''null'' | JUndefined \<Rightarrow> js ''undefined''
      | JNum x \<Rightarrow> toString_number rt x | JStr s \<Rightarrow> s)"

definition formatNumber :: "js_runtime \<Rightarrow> jsvalue \<Rightarrow> jsstring" where
  "formatNumber rt num =
     (case num of
        JNull \<Rightarrow> js ''N/A''
      | JUndefined \<Rightarrow> js ''N/A''
      | _ \<Rightarrow>
          if js_ge (toNumber rt num) (Fin 1000000000)
          then toFixed rt 2 (js_div_by (toNumber rt num) 1000000000) @ js ''B''
          else if js_ge (toNumber rt num) (Fin 1000000)
          then toFixed rt 2 (js_div_by (toNumber rt num) 1000000) @ js ''M''
          else if js_ge (toNumber rt num) (Fin 1000)
          then toFixed rt 2 (js_div_by (toNumber rt num) 1000) @ js ''K''
          else toString_value rt num)"

text \<open>
  The regular expression \<open>/^[A-Z]{1,5}$/\<close> (no flags): from the start of the input,
  between \<open>lo\<close> and \<open>hi\<close> code units of the class, then the end of the input.
\<close>

definition in_A_Z :: "jschar \<Rightarrow> bool" where
  "in_A_Z c = (0x41 \<le> c \<and> c \<le> 0x5A)"

fun match_A_Z_end :: "nat \<Rightarrow> nat \<Rightarrow> jsstring \<Rightarrow> bool" where
  "match_A_Z_end lo hi [] = (lo = 0)"
| "match_A_Z_end lo hi (c # cs) = (0 < hi \<and> in_A_Z c \<and> match_A_Z_end (lo - 1) (hi - 1) cs)"

definition ticker_regex_test :: "jsstring \<Rightarrow> bool" where
  "ticker_regex_test s = match_A_Z_end 1 5 s"

definition falsy :: "jsvalue \<Rightarrow> bool" where
  "falsy v =
     (case v of JNull \<Rightarrow> True | JUndefined \<Rightarrow> True | JStr s \<Rightarrow> s = []
      | JNum x \<Rightarrow> x = Fin 0 \<or> x = NaN)"

definition isValidTicker :: "js_runtime \<Rightarrow> jsvalue \<Rightarrow> bool" where
  "isValidTicker rt tk =
     (if falsy tk then False else ticker_regex_test (toString_value rt tk))"

section \<open>Sequential sends\<close>

lemma send_call_messages:
  "map log_view (messages (send_call s c)) = map log_view (messages s) @ call_log c"
  by (cases "outcome (c_env c)")
     (simp_all add: send_call_def sendMessage_def sendMessage_begin_def sendMessage_settle_def
        call_log_def log_view_def userMessage_def aiMessage_def errorMessage_def)

lemma send_call_isLoading: "isLoading (send_call s c) = False"
  by (cases "outcome (c_env c)")
     (simp_all add: send_call_def sendMessage_def sendMessage_begin_def sendMessage_settle_def)

lemma send_call_chatHistory:
  "chatHistory (send_call s c) = chatHistory s @ call_history c"
  by (cases "outcome (c_env c)")
     (simp_all add: send_call_def sendMessage_def sendMessage_begin_def sendMessage_settle_def
        call_history_def)

lemma send_all_snoc: "send_all s (cs @ [c]) = send_call (send_all s cs) c"
  by (simp add: send_all_def)

lemma send_all_Nil: "send_all s [] = s"
  by (simp add: send_all_def)

lemma send_all_messages:
  "map log_view (messages (send_all s cs)) = map log_view (messages s) @ concat (map call_log cs)"
  by (induction cs rule: rev_induct) (simp_all add: send_all_Nil send_all_snoc send_call_messages)

lemma send_all_chatHistory:
  "chatHistory (send_all s cs) = chatHistory s @ concat (map call_history cs)"
  by (induction cs rule: rev_induct) (simp_all add: send_all_Nil send_all_snoc send_call_chatHistory)

lemma length_call_log: "length (call_log c) = 2"
  by (simp add: call_log_def)

lemma length_concat_call_log: "length (concat (map call_log cs)) = 2 * length cs"
  by (induction cs) (simp_all add: length_call_log)

text \<open>
  C1: after N calls of sendMessage made one after the other from a fresh hook, the log has
  2N messages: for each call, in call order, the user message and then the assistant
  message (on success) or the error message (on failure); from any state the log grows by
  2N. Whether a call succeeds or fails, isLoading is False when it returns.
\<close>

theorem sendMessage_sequential_log:
  "length (messages (send_all useChat_init cs)) = 2 * length cs
   \<and> map log_view (messages (send_all useChat_init cs)) = concat (map call_log cs)
   \<and> length (messages (send_all s cs)) = length (messages s) + 2 * length cs
   \<and> isLoading (fst (sendMessage query tk structured env s)) = False"
proof -
  have len: "length (messages (send_all t cs)) = length (messages t) + 2 * length cs" for t
  proof -
    have "length (map log_view (messages (send_all t cs)))
        = length (map log_view (messages t) @ concat (map call_log cs))"
      by (simp only: send_all_messages)
    then show ?thesis
      by (simp add: length_concat_call_log)
  qed
  have fresh: "messages useChat_init = []"
    by (simp add: useChat_init_def)
  have "isLoading (fst (sendMessage query tk structured env s)) = False"
    by (cases "outcome env")
       (simp_all add: sendMessage_def sendMessage_begin_def sendMessage_settle_def)
  moreover have "map log_view (messages (send_all useChat_init cs)) = concat (map call_log cs)"
    by (simp add: send_all_messages fresh)
  ultimately show ?thesis
    using len [of useChat_init] len [of s] by (simp add: fresh)
qed

text \<open>
  C3: a call whose request succeeds leaves the history equal to the prior history followed
  by the (user, query) entry and then the (assistant, response) entry; a call whose request
  fails leaves the history as it was. Over a sequence of awaited calls from a fresh hook the
  history is therefore the pairs of the successful calls only, in call order.
\<close>

theorem sendMessage_history:
  "chatHistory (fst (sendMessage query tk structured (env\<lparr>outcome := Inr r\<rparr>) s))
     = chatHistory s @ [\<lparr>role = js ''user'', h_content = query\<rparr>,
                        \<lparr>role = js ''assistant'', h_content = response r\<rparr>]
   \<and> chatHistory (fst (sendMessage query tk structured (env\<lparr>outcome := Inl err\<rparr>) s))
     = chatHistory s
   \<and> chatHistory (send_all useChat_init cs) = concat (map call_history cs)"
proof -
  have "chatHistory useChat_init = []"
    by (simp add: useChat_init_def)
  then have "chatHistory (send_all useChat_init cs) = concat (map call_history cs)"
    by (simp add: send_all_chatHistory)
  then show ?thesis
    by (simp add: sendMessage_def sendMessage_begin_def sendMessage_settle_def)
qed

text \<open>
  C10: when the request fails with an error, sendMessage appends (after the user message)
  one error message with the fixed text, stores the error's message in the error state,
  resets isLoading, and its promise rejects with that same error.
\<close>

theorem sendMessage_failure_rethrows:
  "sendMessage query tk structured (env\<lparr>outcome := Inl err\<rparr>) s
     = (s\<lparr>messages := messages s @
             [userMessage query env,
              \<lparr>msg_id = now_end env + 1, msg_type = TError, content = error_text,
               timestamp = Some (iso_end env), annotations = None\<rparr>],
           isLoading := False,
           error := Some (err_message err)\<rparr>,
        Inl err)"
  by (simp add: sendMessage_def sendMessage_begin_def sendMessage_settle_def
      userMessage_def errorMessage_def)

section \<open>Clearing the chat\<close>











section \<open>Rejected submissions\<close>

lemma trim_empty_iff: "trim s = [] \<longleftrightarrow> (\<forall>c\<in>set s. is_whitespace c)"
proof
  assume "trim s = []"
  then have "dropWhile is_whitespace (rev (dropWhile is_whitespace s)) = []"
    by (simp add: trim_def)
  then have "\<forall>c\<in>set (dropWhile is_whitespace s). is_whitespace c"
    by (simp add: dropWhile_eq_Nil_conv)
  moreover have "dropWhile is_whitespace s = [] \<or> \<not> is_whitespace (hd (dropWhile is_whitespace s))"
    using hd_dropWhile [of is_whitespace s] by blast
  ultimately have "dropWhile is_whitespace s = []"
    by (cases "dropWhile is_whitespace s") auto
  then show "\<forall>c\<in>set s. is_whitespace c"
    by (simp add: dropWhile_eq_Nil_conv)
next
  assume "\<forall>c\<in>set s. is_whitespace c"
  then have e: "dropWhile is_whitespace s = []"
    by (simp add: dropWhile_eq_Nil_conv)
  show "trim s = []"
    by (simp only: trim_def e rev.simps dropWhile.simps)
qed

text \<open>
  C2 as stated fails on useChat.sendMessage: it tests neither isLoading nor the text. Called
  on a state whose isLoading is True it appends a user message and issues a request, and so
  it does for a text of blanks.
\<close>

theorem sendMessage_unguarded_counterexample:
  "isLoading pending_state
   \<and> messages (fst (sendMessage_begin (js ''second'') None False (env_ok 2000 2000) pending_state))
       \<noteq> messages pending_state
   \<and> q_query (snd (sendMessage_begin (js ''second'') None False (env_ok 2000 2000) pending_state))
       = js ''second''
   \<and> messages (fst (sendMessage_begin (js ''  '') None False (env_ok 1000 1000) useChat_init))
       \<noteq> messages useChat_init
   \<and> isLoading (fst (sendMessage_begin (js ''  '') None False (env_ok 1000 1000) useChat_init))
       \<noteq> isLoading useChat_init"
  by (simp add: pending_state_def sendMessage_begin_def useChat_init_def)

text \<open>
  C2, amended: the guard is in the form of the chat input. When isLoading is True or the
  typed text is empty or consists of whitespace only, handleSubmit does not call onSend:
  the whole interface state (message log, history, isLoading included) is unchanged and no
  request is issued.
\<close>

theorem handleSubmit_rejects:
  assumes "isLoading (chat ci) \<or> (\<forall>c\<in>set (message (chatInput ci)). is_whitespace c)"
  shows "handleSubmit (isLoading (chat ci)) (chatInput ci) = (chatInput ci, None)
         \<and> submit env ci = (ci, None)"
proof -
  from assms have "\<not> (trim (message (chatInput ci)) \<noteq> [] \<and> \<not> isLoading (chat ci))"
    by (auto simp add: trim_empty_iff)
  then have "handleSubmit (isLoading (chat ci)) (chatInput ci) = (chatInput ci, None)"
    by (simp add: handleSubmit_def)
  then show ?thesis
    by (simp add: submit_def)
qed

theorem handleSubmit_rejects_witness:
  "isLoading (chat pending_interface)
   \<and> message (chatInput pending_interface) = js ''second''
   \<and> submit (env_ok 2000 2000) pending_interface = (pending_interface, None)
   \<and> \<not> isLoading (chat blank_interface)
   \<and> message (chatInput blank_interface) = js ''  ''
   \<and> list_all is_whitespace (js ''  '')
   \<and> submit (env_ok 1000 1000) blank_interface = (blank_interface, None)"
proof -
  have p: "isLoading (chat pending_interface)"
    by (simp add: pending_interface_def pending_state_def sendMessage_begin_def)
  have b: "\<forall>c\<in>set (message (chatInput blank_interface)). is_whitespace c"
    by (simp add: blank_interface_def js_def is_whitespace_def)
  have nb: "\<not> isLoading (chat blank_interface)"
    by (simp add: blank_interface_def ChatInterface_init_def useChat_init_def)
  have m: "message (chatInput pending_interface) = js ''second''"
    by (simp add: pending_interface_def)
  from handleSubmit_rejects [of pending_interface "env_ok 2000 2000"] p
  have 1: "submit (env_ok 2000 2000) pending_interface = (pending_interface, None)"
    by simp
  from handleSubmit_rejects [of blank_interface "env_ok 1000 1000"] b
  have 2: "submit (env_ok 1000 1000) blank_interface = (blank_interface, None)"
    by simp
  have mb: "message (chatInput blank_interface) = js ''  ''"
    by (simp add: blank_interface_def)
  from b mb have l: "list_all is_whitespace (js ''  '')"
    by (simp add: list_all_iff)
  from p nb m mb l 1 2 show ?thesis
    by simp
qed

section \<open>Message ids\<close>

lemma send_call_ids:
  "map msg_id (messages (send_call s c)) = map msg_id (messages s) @ call_ids c"
  by (cases "outcome (c_env c)")
     (simp_all add: send_call_def sendMessage_def sendMessage_begin_def sendMessage_settle_def
        call_ids_def userMessage_def aiMessage_def errorMessage_def)

lemma send_all_ids:
  "map msg_id (messages (send_all s cs)) = map msg_id (messages s) @ concat (map call_ids cs)"
  by (induction cs rule: rev_induct) (simp_all add: send_all_Nil send_all_snoc send_call_ids)

text \<open>
  C8 on two awaited calls under a clock that never runs backwards: the first call is made
  at 1000 ms and answered at 1000 ms, the second is made at 1001 ms and answered at
  1002 ms. The assistant message of the first call and the user message of the second both
  get the id 1001.
\<close>

theorem message_ids_collide:
  "map msg_id (messages (send_all useChat_init [call_at ''first'' 1000 1000, call_at ''second'' 1001 1002]))
     = [1000, 1001, 1001, 1003]
   \<and> \<not> distinct (map msg_id
         (messages (send_all useChat_init [call_at ''first'' 1000 1000, call_at ''second'' 1001 1002])))"
  by (simp add: send_all_def send_call_def sendMessage_def sendMessage_begin_def
      sendMessage_settle_def call_at_def env_ok_def useChat_init_def userMessage_def
      aiMessage_def)

section \<open>Dashboard refreshes\<close>

lemmas dash_defs = mounted_def invoke_def settle_def fetch_start_def Dashboard_init_def
  after_overview_def after_prices_def after_news_def priceResults_def pricesMap_def
  ov_of_def env_of_def an_def quote_def item_def js_def


lemma resume_loading:
  "loading d \<Longrightarrow> loading (fst (resume env ph d)) = (snd (resume env ph d) \<noteq> None)"
  by (cases ph)
     (auto simp add: after_overview_def after_prices_def after_news_def
        split: sum.splits option.splits list.splits)

lemma one_at_a_time_mounted: "one_at_a_time mounted"
  by (simp add: one_at_a_time_def mounted_def invoke_def fetch_start_def)

lemma render_not_loader: "render d \<noteq> LoaderView \<Longrightarrow> \<not> loading d"
  by (auto simp add: render_def)

lemma one_at_a_time_invoke:
  "one_at_a_time sys \<Longrightarrow> \<not> loading (dash sys) \<Longrightarrow> one_at_a_time (invoke (sys\<lparr>dash := (dash sys)\<lparr>signalFilter := g\<rparr>\<rparr>))"
  "one_at_a_time sys \<Longrightarrow> \<not> loading (dash sys) \<Longrightarrow> one_at_a_time (invoke sys)"
  by (simp_all add: one_at_a_time_def invoke_def fetch_start_def)

lemma one_at_a_time_settle:
  assumes "one_at_a_time sys"
  shows "one_at_a_time (settle envs k sys)"
proof (cases "map_of (inflight sys) k")
  case None
  then show ?thesis using assms by (simp add: settle_def)
next
  case (Some ph)
  then have ne: "inflight sys \<noteq> []" by auto
  with assms have l: "loading (dash sys)"
    by (auto simp add: one_at_a_time_def split: if_splits)
  with assms obtain j q where i: "inflight sys = [(j, q)]" and j: "j = started sys - 1" and p: "0 < started sys"
    by (cases "inflight sys") (auto simp add: one_at_a_time_def)
  from Some i have kj: "k = j" and qp: "q = ph"
    by (auto split: if_splits)
  show ?thesis
  proof (cases "resume (envs k) ph (dash sys)")
    case (Pair d' nxt)
    with resume_loading [OF l, of "envs k" ph] have "loading d' = (nxt \<noteq> None)"
      by simp
    with Pair Some i kj j p show ?thesis
      by (cases nxt) (auto simp add: settle_def one_at_a_time_def)
  qed
qed

lemma one_at_a_time_ui_event:
  "one_at_a_time sys \<Longrightarrow> one_at_a_time (ui_event envs sys ev)"
proof (cases ev)
  case (Response k)
  assume "one_at_a_time sys"
  with Response show ?thesis by (simp add: one_at_a_time_settle)
next
  case (SelectFilter g)
  assume a: "one_at_a_time sys"
  show ?thesis
  proof (cases "render (dash sys)")
    case (PageView ov ps ns f)
    then have "\<not> loading (dash sys)" by (simp add: render_not_loader)
    with a PageView SelectFilter show ?thesis
      by (simp add: one_at_a_time_invoke)
  qed (use a SelectFilter in simp_all)
next
  case ClickRefresh
  assume a: "one_at_a_time sys"
  show ?thesis
  proof (cases "render (dash sys)")
    case (PageView ov ps ns f)
    then have "\<not> loading (dash sys)" by (simp add: render_not_loader)
    with a PageView ClickRefresh show ?thesis
      by (simp add: one_at_a_time_invoke)
  qed (use a ClickRefresh in simp_all)
next
  case ClickRetry
  assume a: "one_at_a_time sys"
  show ?thesis
  proof (cases "render (dash sys)")
    case (ErrorView e)
    then have "\<not> loading (dash sys)" by (simp add: render_not_loader)
    with a ErrorView ClickRetry show ?thesis
      by (simp add: one_at_a_time_invoke)
  qed (use a ClickRetry in simp_all)
qed

lemma one_at_a_time_ui_run: "one_at_a_time (ui_run envs evs)"
  by (induction evs rule: rev_induct)
     (simp_all add: ui_run_def one_at_a_time_mounted one_at_a_time_ui_event)








text \<open>
  C5 as stated fails: the three cells are written one by one, and a page view can show
  them from different refreshes. The first refresh publishes the analysis, price and news
  of A; the user selects a filter; the overview of the second refresh lists nothing, so
  the invocation returns after setDashboardData. The page, no longer loading, shows the
  new (empty) overview next to the old prices and the old news. And in a refresh whose
  overview lists B, the state right after the overview has arrived already holds the new
  overview, before any price or news of B has been fetched.
\<close>

theorem stale_page_counterexample:
  "render (dash stale_page) =
     PageView (Some (ov_of [])) [js ''A'' \<mapsto> Some (quote 100)] [item ''old''] (Some (js ''SELL''))
   \<and> loading half_published
   \<and> dashboardData half_published = Some (ov_of [''B''])
   \<and> prices half_published (js ''A'') = Some (Some (quote 100))
   \<and> prices half_published (js ''B'') = None
   \<and> news half_published = [item ''old'']"
proof -
  have "render (dash stale_page) =
     PageView (Some (ov_of [])) [js ''A'' \<mapsto> Some (quote 100)] [item ''old''] (Some (js ''SELL''))"
    by (simp add: stale_page_def ui_run_def render_def envs_empty_def dash_defs enumerate_eq_zip)
  moreover have "loading half_published
   \<and> dashboardData half_published = Some (ov_of [''B''])
   \<and> prices half_published (js ''A'') = Some (Some (quote 100))
   \<and> prices half_published (js ''B'') = None
   \<and> news half_published = [item ''old'']"
    by (simp add: half_published_def fetchDashboardData_def fetch_trace_def numeral_3_eq_3
        dash_defs enumerate_eq_zip)
  ultimately show ?thesis
    by (simp only: simp_thms)
qed

lemma fetch_trace_nonempty:
  assumes "overview_result env = Inr ov" and "analyses ov = Some (a # as)"
  shows "fetch_trace env d =
     [d\<lparr>loading := True, dash_error := None\<rparr>,
      d\<lparr>loading := True, dash_error := None, dashboardData := Some ov\<rparr>,
      d\<lparr>loading := True, dash_error := None, dashboardData := Some ov,
        prices := pricesMap (priceResults env (a # as))\<rparr>,
      d\<lparr>loading := False, dash_error := None, dashboardData := Some ov,
        prices := pricesMap (priceResults env (a # as)),
        news := (case news_result env of Inr ns \<Rightarrow> ns | Inl err \<Rightarrow> [])\<rparr>]"
  using assms
  by (simp add: fetch_trace_def fetch_start_def after_overview_def after_prices_def
      after_news_def numeral_3_eq_3)

lemma fetch_never_fails_on_prices:
  assumes "overview_result env = Inr ov" and "analyses ov = Some (a # as)"
  shows "dash_error (fetchDashboardData env d) = None \<and> \<not> loading (fetchDashboardData env d)"
  by (simp add: fetchDashboardData_def fetch_trace_nonempty [OF assms])

text \<open>
  C5, amended: a refresh whose overview lists at least one analysis writes dashboardData
  after the overview, prices after all price fetches have settled and news after the news
  fetch, in three separate updates; loading is True from its start until the last of them,
  so the loader is rendered at each intermediate state, and the state after the last
  update holds the analyses, prices and news of this refresh. In every state reachable
  through the page, the loader is what is rendered while an invocation is in flight.
\<close>

theorem refresh_shows_loader_until_done:
  assumes "overview_result env = Inr ov" and "analyses ov = Some (a # as)"
  shows "fetch_trace env d =
     [d\<lparr>loading := True, dash_error := None\<rparr>,
      d\<lparr>loading := True, dash_error := None, dashboardData := Some ov\<rparr>,
      d\<lparr>loading := True, dash_error := None, dashboardData := Some ov,
        prices := pricesMap (priceResults env (a # as))\<rparr>,
      d\<lparr>loading := False, dash_error := None, dashboardData := Some ov,
        prices := pricesMap (priceResults env (a # as)),
        news := (case news_result env of Inr ns \<Rightarrow> ns | Inl err \<Rightarrow> [])\<rparr>]
   \<and> map render (butlast (fetch_trace env d)) = [LoaderView, LoaderView, LoaderView]
   \<and> (inflight (ui_run envs evs) \<noteq> [] \<longrightarrow> render (dash (ui_run envs evs)) = LoaderView)"
proof -
  have "one_at_a_time (ui_run envs evs)"
    by (rule one_at_a_time_ui_run)
  then have "inflight (ui_run envs evs) \<noteq> [] \<longrightarrow> render (dash (ui_run envs evs)) = LoaderView"
    by (auto simp add: one_at_a_time_def render_def split: if_splits)
  moreover have "map render (butlast (fetch_trace env d)) = [LoaderView, LoaderView, LoaderView]"
    by (simp add: fetch_trace_nonempty [OF assms] render_def)
  ultimately show ?thesis
    using fetch_trace_nonempty [OF assms, of d] by simp
qed

theorem refresh_shows_loader_until_done_witness:
  "overview_result (env_of [''A''] 100 ''old'') = Inr (ov_of [''A''])
   \<and> analyses (ov_of [''A'']) = Some [an ''A'']
   \<and> map render (butlast (fetch_trace (env_of [''A''] 100 ''old'') Dashboard_init))
       = [LoaderView, LoaderView, LoaderView]
   \<and> dashboardData (last (fetch_trace (env_of [''A''] 100 ''old'') Dashboard_init))
       = Some (ov_of [''A''])
   \<and> inflight (ui_run envs_ab []) \<noteq> []
   \<and> render (dash (ui_run envs_ab [])) = LoaderView"
proof -
  have 1: "overview_result (env_of [''A''] 100 ''old'') = Inr (ov_of [''A''])"
    by (simp add: env_of_def)
  have 2: "analyses (ov_of [''A'']) = Some [an ''A'']"
    by (simp add: ov_of_def)
  have 3: "inflight (ui_run envs_ab []) \<noteq> []"
    by (simp add: ui_run_def mounted_def invoke_def)
  from refresh_shows_loader_until_done [OF 1 2, of Dashboard_init envs_ab "[]"] 1 2 3
  show ?thesis
    by (simp add: render_def)
qed

text \<open>
  C6: when the overview succeeds with three analyses of distinct tickers A, B, C and the
  price fetch of B rejects while those of A and C resolve, the refresh ends with the price
  data of A and of C under their tickers and null (no price) under B; no error is set,
  loading is False and the overview is published.
\<close>

theorem price_failure_is_local:
  assumes "overview_result env = Inr ov" and "analyses ov = Some [a, b, c]"
    and "distinct [a_ticker a, a_ticker b, a_ticker c]"
    and "price_result env 0 = Inr pa" and "price_result env 1 = Inl err"
    and "price_result env 2 = Inr pc"
  shows "prices (fetchDashboardData env d) (a_ticker a) = Some (Some pa)
   \<and> prices (fetchDashboardData env d) (a_ticker b) = Some None
   \<and> prices (fetchDashboardData env d) (a_ticker c) = Some (Some pc)
   \<and> dash_error (fetchDashboardData env d) = None
   \<and> loading (fetchDashboardData env d) = False
   \<and> dashboardData (fetchDashboardData env d) = Some ov"
  using assms
  by (simp add: fetchDashboardData_def fetch_trace_nonempty [OF assms(1,2)] pricesMap_def
      priceResults_def enumerate_eq_zip upt_rec numeral_2_eq_2)

theorem price_failure_is_local_witness:
  "overview_result env_abc = Inr (ov_of [''A'', ''B'', ''C''])
   \<and> analyses (ov_of [''A'', ''B'', ''C'']) = Some [an ''A'', an ''B'', an ''C'']
   \<and> distinct [a_ticker (an ''A''), a_ticker (an ''B''), a_ticker (an ''C'')]
   \<and> price_result env_abc 0 = Inr (quote 0)
   \<and> price_result env_abc 1 = Inl \<lparr>err_message = js ''timeout''\<rparr>
   \<and> price_result env_abc 2 = Inr (quote 2)
   \<and> prices (fetchDashboardData env_abc Dashboard_init) (js ''A'') = Some (Some (quote 0))
   \<and> prices (fetchDashboardData env_abc Dashboard_init) (js ''B'') = Some None
   \<and> prices (fetchDashboardData env_abc Dashboard_init) (js ''C'') = Some (Some (quote 2))
   \<and> dash_error (fetchDashboardData env_abc Dashboard_init) = None
   \<and> loading (fetchDashboardData env_abc Dashboard_init) = False"
proof -
  have 1: "overview_result env_abc = Inr (ov_of [''A'', ''B'', ''C''])"
    by (simp add: env_abc_def)
  have 2: "analyses (ov_of [''A'', ''B'', ''C'']) = Some [an ''A'', an ''B'', an ''C'']"
    by (simp add: ov_of_def)
  have 3: "distinct [a_ticker (an ''A''), a_ticker (an ''B''), a_ticker (an ''C'')]"
    by (simp add: an_def js_def)
  have 4: "price_result env_abc 0 = Inr (quote 0)"
    by (simp add: env_abc_def)
  have 5: "price_result env_abc 1 = Inl \<lparr>err_message = js ''timeout''\<rparr>"
    by (simp add: env_abc_def)
  have 6: "price_result env_abc 2 = Inr (quote 2)"
    by (simp add: env_abc_def)
  have t: "a_ticker (an ''A'') = js ''A''" "a_ticker (an ''B'') = js ''B''"
    "a_ticker (an ''C'') = js ''C''"
    by (simp_all add: an_def)
  from price_failure_is_local [OF 1 2 3 4 5 6, of Dashboard_init] 1 2 3 4 5 6
  show ?thesis
    by (simp only: t)
qed

section \<open>Helpers\<close>

lemma literal_3456: "round_double (3456 / 1000) = Fin (7782220156096217 / 2 ^ 51)"
  by code_simp

lemma match_A_Z_end_iff:
  "match_A_Z_end lo hi s \<longleftrightarrow> lo \<le> length s \<and> length s \<le> hi \<and> list_all in_A_Z s"
  by (induction s arbitrary: lo hi) auto

lemma A_Z_literal: "js ''ABCDEFGHIJKLMNOPQRSTUVWXYZ'' = map of_nat [65..<91]"
  by code_simp

lemma in_A_Z_iff: "in_A_Z c \<longleftrightarrow> c \<in> set (js ''ABCDEFGHIJKLMNOPQRSTUVWXYZ'')"
proof
  assume "in_A_Z c"
  then have "65 \<le> unat c \<and> unat c < 91"
    by (simp add: in_A_Z_def word_le_nat_alt)
  then have "unat c \<in> set [65..<91]"
    by (simp only: set_upt atLeastLessThan_iff)
  then have "(of_nat (unat c) :: jschar) \<in> of_nat ` set [65..<91]"
    by (rule imageI)
  moreover have "of_nat (unat c) = c"
    by simp
  ultimately show "c \<in> set (js ''ABCDEFGHIJKLMNOPQRSTUVWXYZ'')"
    by (simp only: A_Z_literal set_map)
next
  assume "c \<in> set (js ''ABCDEFGHIJKLMNOPQRSTUVWXYZ'')"
  then show "in_A_Z c"
    by (auto simp add: js_def in_A_Z_def)
qed

lemma list_all_in_A_Z: "list_all in_A_Z s \<longleftrightarrow> set s \<subseteq> set (js ''ABCDEFGHIJKLMNOPQRSTUVWXYZ'')"
  by (auto simp add: list_all_iff in_A_Z_iff)

text \<open>
  C9: formatPercent(-3.456) is "-3.46%" (the literal 3.456 denotes the double nearest to
  3456/1000), formatPercent(0) is "+0.00%", formatPrice(null) is "N/A",
  formatNumber(2500000) is "2.50M"; and on a string s, isValidTicker is true exactly when
  s has between 1 and 5 code units, each an uppercase ASCII letter: true on "AAPL", false
  on "aapl" and on "TOOLONG1".
\<close>

theorem helpers_examples:
  "formatPercent rt (JNum (js_neg (round_double (3456 / 1000)))) = js ''-3.46%''
   \<and> formatPercent rt (JNum (Fin 0)) = js ''+0.00%''
   \<and> formatPrice rt JNull = js ''N/A''
   \<and> formatNumber rt (JNum (Fin 2500000)) = js ''2.50M''
   \<and> (isValidTicker rt (JStr s) \<longleftrightarrow>
        1 \<le> length s \<and> length s \<le> 5 \<and> set s \<subseteq> set (js ''ABCDEFGHIJKLMNOPQRSTUVWXYZ''))
   \<and> isValidTicker rt (JStr (js ''AAPL''))
   \<and> \<not> isValidTicker rt (JStr (js ''aapl''))
   \<and> \<not> isValidTicker rt (JStr (js ''TOOLONG1''))"
proof -
  have 1: "formatPercent rt (JNum (js_neg (round_double (3456 / 1000)))) = js ''-3.46%''"
    by code_simp
  have 2: "formatPercent rt (JNum (Fin 0)) = js ''+0.00%''"
    by code_simp
  have 3: "formatPrice rt JNull = js ''N/A''"
    by (simp add: formatPrice_def)
  have 4: "formatNumber rt (JNum (Fin 2500000)) = js ''2.50M''"
    by code_simp
  have 5: "isValidTicker rt (JStr s) \<longleftrightarrow>
        1 \<le> length s \<and> length s \<le> 5 \<and> set s \<subseteq> set (js ''ABCDEFGHIJKLMNOPQRSTUVWXYZ'')"
    by (auto simp add: isValidTicker_def falsy_def toString_value_def ticker_regex_test_def
          match_A_Z_end_iff list_all_in_A_Z simp del: match_A_Z_end.simps)
  have 6: "isValidTicker rt (JStr (js ''AAPL''))"
    by code_simp
  have 7: "\<not> isValidTicker rt (JStr (js ''aapl''))"
    by code_simp
  have 8: "\<not> isValidTicker rt (JStr (js ''TOOLONG1''))"
    by code_simp
  from 1 2 3 4 5 6 7 8 show ?thesis
    by (simp only: simp_thms)
qed

end
